theory Spec2Isabelle
  imports Main "HOL-Library.Sublist"
begin

section \<open>JavaScript values, errors and strings\<close>

text \<open>
  The values that flow through the components: what the backend answers with, what the
  context stores. Numbers are the integers only (issue ids); an object is the list of
  its own properties, each key once.
\<close>

datatype jsval =
    JUndefined
  | JNull
  | JBool bool
  | JNum int
  | JStr string
  | JArr "jsval list"
  | JObj "(string \<times> jsval) list"

text \<open>A thrown or rejected value: an Error with its \<open>name\<close> and its \<open>message\<close>.\<close>

record js_error =
  err_name :: string
  err_message :: string

text \<open>Truthiness, as \<open>!x\<close> and \<open>x || y\<close> read it.\<close>

fun truthy :: "jsval \<Rightarrow> bool" where
  "truthy JUndefined = False"
| "truthy JNull = False"
| "truthy (JBool b) = b"
| "truthy (JNum n) = (n \<noteq> 0)"
| "truthy (JStr s) = (s \<noteq> [])"
| "truthy (JArr xs) = True"
| "truthy (JObj fs) = True"

definition js_or :: "jsval \<Rightarrow> jsval \<Rightarrow> jsval" where
  "js_or a b = (if truthy a then a else b)"

definition type_error :: "string \<Rightarrow> js_error" where
  "type_error what = \<lparr>err_name = ''TypeError'', err_message = what\<rparr>"

text \<open>
  Reading a property, \<open>v.k\<close>: a TypeError on \<open>undefined\<close> and \<open>null\<close>, the
  property's value on an object that has it, \<open>undefined\<close> otherwise. The only keys the
  components read (\<open>data\<close>, \<open>issues\<close>, \<open>summary\<close>, \<open>response\<close>, \<open>id\<close>) are no
  property of a boolean, a number, a string or an array.
\<close>

fun get_prop :: "jsval \<Rightarrow> string \<Rightarrow> js_error + jsval" where
  "get_prop JUndefined k = Inl (type_error (''Cannot read properties of undefined (reading '' @ k @ '')''))"
| "get_prop JNull k = Inl (type_error (''Cannot read properties of null (reading '' @ k @ '')''))"
| "get_prop (JObj fs) k = Inr (case map_of fs k of None \<Rightarrow> JUndefined | Some v \<Rightarrow> v)"
| "get_prop (JBool b) k = Inr JUndefined"
| "get_prop (JNum n) k = Inr JUndefined"
| "get_prop (JStr s) k = Inr JUndefined"
| "get_prop (JArr xs) k = Inr JUndefined"

text \<open>
  \<open>String.prototype.trim\<close>. A character is one code unit below 256; the white space
  and line terminators of that range are tab, LF, VT, FF, CR, space and the no-break
  space.
\<close>

definition js_space :: "char \<Rightarrow> bool" where
  "js_space c = (of_char c \<in> {9, 10, 11, 12, 13, 32, 160 :: nat})"

definition trim :: "string \<Rightarrow> string" where
  "trim s = rev (dropWhile js_space (rev (dropWhile js_space s)))"

text \<open>Indexing an array of strings, \<open>xs[i]\<close>: \<open>undefined\<close> out of range.\<close>

definition js_index :: "string list \<Rightarrow> int \<Rightarrow> jsval" where
  "js_index xs i = (if 0 \<le> i \<and> i < int (length xs) then JStr (xs ! nat i) else JUndefined)"

section \<open>The application state\<close>

text \<open>A chat message, \<open>{ role, text }\<close>.\<close>

record message =
  msg_role :: string
  msg_text :: jsval

text \<open>
  The state the components share through AppContext (\<open>selectedModel\<close> to
  \<open>chatMessages\<close>), the local state of Dialog (\<open>loading\<close>, \<open>currentStep\<close>) and of
  ChatUI (\<open>input\<close>, \<open>loading\<close>), and the environment the handlers act on: the running
  step intervals, the calls made to the backend with the number of them not yet settled,
  and the alerts shown.

  The last field is the chat log as the last render showed it. React renders what a
  click or key handler set before it dispatches the next event; what is set after an
  \<open>await\<close>, in the continuation of a settled call, it renders some time later. Until
  then the handlers, closures of the last render, still hold the log of that render.

  AppContext itself is not among the sources: its setters are taken to be React state
  setters (a value replaces the state, a function is applied to the current state when
  React processes the update), and the values it starts with are left open.
\<close>

record app =
  selectedModel :: string
  repoUrl :: string
  issues :: jsval
  selectedIssue :: jsval
  summary :: jsval
  chatMessages :: "message list"
  dialog_loading :: bool
  currentStep :: int
  chat_input :: string
  chat_loading :: bool
  stepIntervals :: nat
  processRepo_calls :: "jsval list"
  processRepo_pending :: nat
  askAI_calls :: "jsval list"
  askAI_pending :: nat
  alerts :: "string list"
  rendered_chatMessages :: "message list"

text \<open>
  The components freshly mounted over a context \<open>c\<close>, nothing called yet; the first
  render shows the context's chat log.
\<close>

definition mount :: "app \<Rightarrow> app" where
  "mount c = c\<lparr>dialog_loading := False, currentStep := 0, chat_input := [],
     chat_loading := False, stepIntervals := 0, processRepo_calls := [],
     processRepo_pending := 0, askAI_calls := [], askAI_pending := 0, alerts := [],
     rendered_chatMessages := chatMessages c\<rparr>"

text \<open>
  The values of the last render, which the handlers read. Of what they read
  (\<open>repoUrl\<close>, \<open>selectedModel\<close>, \<open>selectedIssue\<close>, \<open>input\<close>, \<open>chatMessages\<close>) only the
  chat log is ever set after an \<open>await\<close>; the others are set in click, key and change
  handlers alone, so the last render has them as the state does.
\<close>

definition last_render :: "app \<Rightarrow> app" where
  "last_render s = s\<lparr>chatMessages := rendered_chatMessages s\<rparr>"

text \<open>
  After a handler ran on \<open>s\<close> and left \<open>s'\<close>, React renders what the handler set: a log
  the handler set is the log rendered. A log it did not set stays as the last render
  showed it.
\<close>

definition handler_render :: "app \<Rightarrow> app \<Rightarrow> app" where
  "handler_render s s' =
    (if chatMessages s' = chatMessages s then s'
     else s'\<lparr>rendered_chatMessages := chatMessages s'\<rparr>)"

section \<open>Dialog: fetchRepo\<close>

definition PROCESSING_STEPS :: "string list" where
  "PROCESSING_STEPS =
    [''Processing Request...'',
     ''Cloning Repository...'',
     ''Fetching Codes & Understanding...'',
     ''Cleaning Data & Preprocessing...'',
     ''Analyzing Contextual Relations...'',
     ''Fetching Issues...'',
     ''Creating Knowledge Base...'']"

text \<open>
  A handler is a closure of the render that created it: it reads the values \<open>r\<close> of that
  render and writes to the current state \<open>s\<close>.

  \<open>fetchRepo\<close> up to its \<open>await\<close>: a blank URL alerts and returns; otherwise the
  loading flag is set, the step, the issue list and the selected issue are reset, the
  step interval is started and \<open>backend.processRepo\<close> is called with
  \<open>{ url, model }\<close>.
\<close>

definition fetchRepo_start :: "app \<Rightarrow> app \<Rightarrow> app" where
  "fetchRepo_start r s =
    (if trim (repoUrl r) = [] then s\<lparr>alerts := alerts s @ [''Enter repository URL'']\<rparr>
     else s\<lparr>dialog_loading := True,
            currentStep := 0,
            issues := JArr [],
            selectedIssue := JNull,
            stepIntervals := Suc (stepIntervals s),
            processRepo_calls := processRepo_calls s @
              [JObj [(''url'', JStr (trim (repoUrl r))), (''model'', JStr (selectedModel r))]],
            processRepo_pending := Suc (processRepo_pending s)\<rparr>)"

text \<open>The callback of the step interval, \<open>setCurrentStep(prev => ...)\<close>.\<close>

definition stepInterval_tick :: "app \<Rightarrow> app" where
  "stepInterval_tick s =
    s\<lparr>currentStep :=
        (if currentStep s < int (length PROCESSING_STEPS) - 1 then currentStep s + 1
         else currentStep s)\<rparr>"

text \<open>
  The body of the \<open>try\<close> once the call has resolved with \<open>res\<close>, statement by
  statement. A throw carries the state reached so far to the \<open>catch\<close>.
\<close>

definition fetchRepo_try :: "jsval \<Rightarrow> app \<Rightarrow> (js_error \<times> app) + app" where
  "fetchRepo_try res s =
    (case get_prop res ''data'' of
       Inl e \<Rightarrow> Inl (e, s)
     | Inr d \<Rightarrow>
        (case get_prop d ''issues'' of
           Inl e \<Rightarrow> Inl (e, s)
         | Inr i \<Rightarrow>
            (let cleanIssues = js_or i (JArr []);
                 s1 = s\<lparr>issues := cleanIssues\<rparr>
             in case get_prop res ''data'' of
                  Inl e \<Rightarrow> Inl (e, s1)
                | Inr d' \<Rightarrow>
                   (case get_prop d' ''summary'' of
                      Inl e \<Rightarrow> Inl (e, s1)
                    | Inr m \<Rightarrow> Inr (s1\<lparr>summary := js_or m (JStr [])\<rparr>)))))"

definition fetchRepo_catch :: "js_error \<Rightarrow> app \<Rightarrow> app" where
  "fetchRepo_catch err s = s\<lparr>alerts := alerts s @ [''Error: '' @ err_message err]\<rparr>"

definition fetchRepo_finally :: "app \<Rightarrow> app" where
  "fetchRepo_finally s =
    s\<lparr>stepIntervals := stepIntervals s - 1,
      dialog_loading := False,
      currentStep := 0,
      processRepo_pending := processRepo_pending s - 1\<rparr>"

text \<open>
  \<open>fetchRepo\<close> from its \<open>await\<close> on: the call was rejected with an error (\<open>Inl\<close>) or
  resolved with a response (\<open>Inr\<close>).
\<close>

definition fetchRepo_settle :: "js_error + jsval \<Rightarrow> app \<Rightarrow> app" where
  "fetchRepo_settle outcome s =
    fetchRepo_finally
      (case outcome of
         Inl err \<Rightarrow> fetchRepo_catch err s
       | Inr res \<Rightarrow>
          (case fetchRepo_try res s of
             Inl (err, s') \<Rightarrow> fetchRepo_catch err s'
           | Inr s' \<Rightarrow> s'))"

section \<open>ChatUI: sendMessage\<close>

text \<open>
  \<open>sendMessage\<close> up to its \<open>await\<close>. The log is replaced by the log of the handler's
  render with the user's message added; the input is cleared, the loading flag set, and
  \<open>backend.askAI\<close> is called with \<open>{ issue_id, prompt, model }\<close>.
\<close>

definition sendMessage_start :: "app \<Rightarrow> app \<Rightarrow> app" where
  "sendMessage_start r s =
    (if trim (chat_input r) = [] then s
     else s\<lparr>chatMessages := chatMessages r @ [\<lparr>msg_role = ''user'', msg_text = JStr (chat_input r)\<rparr>],
            chat_input := [],
            chat_loading := True,
            askAI_calls := askAI_calls s @
              [JObj [(''issue_id'', selectedIssue r),
                     (''prompt'', JStr (chat_input r)),
                     (''model'', JStr (selectedModel r))]],
            askAI_pending := Suc (askAI_pending s)\<rparr>)"

text \<open>
  The message \<open>{ role: "assistant", text: res.data.response }\<close>. It stands inside the
  function handed to \<open>setChatMessages\<close>, so React evaluates it when it processes the
  update, outside the \<open>try\<close> of \<open>sendMessage\<close>.
\<close>

definition assistant_reply :: "jsval \<Rightarrow> js_error + message" where
  "assistant_reply res =
    (case get_prop res ''data'' of
       Inl e \<Rightarrow> Inl e
     | Inr d \<Rightarrow>
        (case get_prop d ''response'' of
           Inl e \<Rightarrow> Inl e
         | Inr t \<Rightarrow> Inr \<lparr>msg_role = ''assistant'', msg_text = t\<rparr>))"

text \<open>
  \<open>sendMessage\<close> from its \<open>await\<close> on. A rejected call adds the assistant's message
  \<open>"Error occurred"\<close>; a resolved one adds the reply. Both add to the current log
  (\<open>m => [...m, ...]\<close>); the loading flag is cleared. Where the reply cannot be read the
  error is React's, uncaught (\<open>Inl\<close>): the components are gone.
\<close>

definition sendMessage_settle :: "js_error + jsval \<Rightarrow> app \<Rightarrow> js_error + app" where
  "sendMessage_settle outcome s =
    (case outcome of
       Inl err \<Rightarrow>
         Inr (s\<lparr>chatMessages := chatMessages s @
                   [\<lparr>msg_role = ''assistant'', msg_text = JStr ''Error occurred''\<rparr>],
                 chat_loading := False,
                 askAI_pending := askAI_pending s - 1\<rparr>)
     | Inr res \<Rightarrow>
        (case assistant_reply res of
           Inl e \<Rightarrow> Inl e
         | Inr m \<Rightarrow>
             Inr (s\<lparr>chatMessages := chatMessages s @ [m],
                     chat_loading := False,
                     askAI_pending := askAI_pending s - 1\<rparr>)))"

section \<open>What a render shows\<close>

text \<open>An option of a select, \<open>{ value, label }\<close>.\<close>

record sel_option =
  opt_value :: string
  opt_label :: string

definition modelOptions_Dialog :: "sel_option list" where
  "modelOptions_Dialog =
    [\<lparr>opt_value = ''gemini'', opt_label = ''Gemini 1.5 Pro''\<rparr>,
     \<lparr>opt_value = ''groq'', opt_label = ''ChatGPT-OSS''\<rparr>]"

definition modelOptions_Sidebar :: "sel_option list" where
  "modelOptions_Sidebar =
    [\<lparr>opt_value = ''gemini'', opt_label = ''Gemini 1.5 Pro''\<rparr>,
     \<lparr>opt_value = ''groq'', opt_label = ''ChatGPT-OSS''\<rparr>]"

text \<open>
  The values of \<open>issueOptions\<close>, \<open>issues.map(i => ({ value: i.id, ... }))\<close>; the labels
  are display only and left out. The render throws where \<open>issues\<close> is no array or an
  element of it is \<open>undefined\<close> or \<open>null\<close>.
\<close>

fun issue_ids :: "jsval list \<Rightarrow> js_error + jsval list" where
  "issue_ids [] = Inr []"
| "issue_ids (i # rest) =
    (case get_prop i ''id'' of
       Inl e \<Rightarrow> Inl e
     | Inr v \<Rightarrow> (case issue_ids rest of Inl e \<Rightarrow> Inl e | Inr vs \<Rightarrow> Inr (v # vs)))"

fun issueOptions :: "jsval \<Rightarrow> js_error + jsval list" where
  "issueOptions (JArr xs) = issue_ids xs"
| "issueOptions JUndefined = Inl (type_error ''Cannot read properties of undefined (reading map)'')"
| "issueOptions JNull = Inl (type_error ''Cannot read properties of null (reading map)'')"
| "issueOptions (JBool b) = Inl (type_error ''issues.map is not a function'')"
| "issueOptions (JNum n) = Inl (type_error ''issues.map is not a function'')"
| "issueOptions (JStr t) = Inl (type_error ''issues.map is not a function'')"
| "issueOptions (JObj fs) = Inl (type_error ''issues.map is not a function'')"

text \<open>
  What the user can act on after a render of Dialog, Sidebar and ChatUI: whether the
  Fetch button is disabled and what it shows, the options of the selects, whether the
  Send button is disabled.
\<close>

record view =
  fetch_disabled :: bool
  fetch_label :: jsval
  dialog_models :: "sel_option list"
  sidebar_models :: "sel_option list"
  issue_values :: "jsval list"
  send_disabled :: bool

definition render :: "app \<Rightarrow> js_error + view" where
  "render s =
    (case issueOptions (issues s) of
       Inl e \<Rightarrow> Inl e
     | Inr vs \<Rightarrow>
        Inr \<lparr>fetch_disabled = dialog_loading s,
             fetch_label =
               (if dialog_loading s then js_index PROCESSING_STEPS (currentStep s)
                else JStr ''Fetch Issues & Analyze''),
             dialog_models = modelOptions_Dialog,
             sidebar_models = modelOptions_Sidebar,
             issue_values = vs,
             send_disabled = (chat_loading s \<or> trim (chat_input s) = [])\<rparr>)"

text \<open>
  CustomSelect: a click on the \<open>i\<close>-th option calls \<open>onChange(option.value)\<close>; there is
  nothing to click beyond the options listed.
\<close>

definition CustomSelect_click :: "'v list \<Rightarrow> nat \<Rightarrow> ('v \<Rightarrow> app \<Rightarrow> app) \<Rightarrow> app \<Rightarrow> app" where
  "CustomSelect_click vals i onChange s = (if i < length vals then onChange (vals ! i) s else s)"

section \<open>Events\<close>

datatype component = InDialog | InSidebar

text \<open>
  What can happen to the mounted components: the user clicks Fetch, the step interval
  fires, a \<open>processRepo\<close> call settles, the user edits the URL, picks a model (in Dialog
  or Sidebar) or an issue, edits the chat input, presses a key in it (the key, whether
  shift is held), clicks Send, an \<open>askAI\<close> call settles, React renders what was set
  after an \<open>await\<close>.
\<close>

datatype event =
    ClickFetch
  | Tick
  | ProcessRepoSettled "js_error + jsval"
  | ChangeRepoUrl string
  | PickModel component nat
  | PickIssue nat
  | ChangeInput string
  | KeyPress string bool
  | ClickSend
  | AskAISettled "js_error + jsval"
  | Render

text \<open>
  The handler an event reaches, given what the state \<open>s\<close> shows, \<open>v\<close>. A disabled
  button takes no click; an interval that was cleared does not fire; only a pending call
  settles. The handlers are closures of the last render: they read \<open>last_render s\<close>, whose
  chat log can be behind the state. The Enter key calls \<open>sendMessage\<close> whether or not a
  reply is pending; only the Send button is held back by \<open>loading\<close>.

  The disabled flags are read from the state: a render behind it could only show a
  button disabled that the state enables (the loading flags are set in handlers and
  cleared after an \<open>await\<close>), and so refuse a click that is let through here.
\<close>

fun dispatch :: "view \<Rightarrow> event \<Rightarrow> app \<Rightarrow> js_error + app" where
  "dispatch v ClickFetch s =
    Inr (if fetch_disabled v then s else fetchRepo_start (last_render s) s)"
| "dispatch v Tick s = Inr (if 0 < stepIntervals s then stepInterval_tick s else s)"
| "dispatch v (ProcessRepoSettled outcome) s =
    Inr (if 0 < processRepo_pending s then fetchRepo_settle outcome s else s)"
| "dispatch v (ChangeRepoUrl u) s = Inr (s\<lparr>repoUrl := u\<rparr>)"
| "dispatch v (PickModel InDialog i) s =
    Inr (CustomSelect_click (map opt_value (dialog_models v)) i (\<lambda>m s. s\<lparr>selectedModel := m\<rparr>) s)"
| "dispatch v (PickModel InSidebar i) s =
    Inr (CustomSelect_click (map opt_value (sidebar_models v)) i (\<lambda>m s. s\<lparr>selectedModel := m\<rparr>) s)"
| "dispatch v (PickIssue i) s =
    Inr (CustomSelect_click (issue_values v) i (\<lambda>x s. s\<lparr>selectedIssue := x\<rparr>) s)"
| "dispatch v (ChangeInput t) s = Inr (s\<lparr>chat_input := t\<rparr>)"
| "dispatch v (KeyPress k shift) s =
    Inr (if k = ''Enter'' \<and> \<not> shift
         then handler_render s (sendMessage_start (last_render s) s) else s)"
| "dispatch v ClickSend s =
    Inr (if send_disabled v then s
         else handler_render s (sendMessage_start (last_render s) s))"
| "dispatch v (AskAISettled outcome) s =
    (if 0 < askAI_pending s then sendMessage_settle outcome s else Inr s)"
| "dispatch v Render s = Inr (s\<lparr>rendered_chatMessages := chatMessages s\<rparr>)"

definition step :: "event \<Rightarrow> app \<Rightarrow> js_error + app" where
  "step e s = (case render s of Inl err \<Rightarrow> Inl err | Inr v \<Rightarrow> dispatch v e s)"

fun run :: "event list \<Rightarrow> app \<Rightarrow> js_error + app" where
  "run [] s = Inr s"
| "run (e # es) s = (case step e s of Inl err \<Rightarrow> Inl err | Inr s' \<Rightarrow> run es s')"

section \<open>Notions the properties use\<close>

text \<open>The keys of a request's payload, in the order the object literal lists them.\<close>

fun payload_keys :: "jsval \<Rightarrow> string list" where
  "payload_keys (JObj fs) = map fst fs"
| "payload_keys v = []"

fun is_PickModel :: "event \<Rightarrow> bool" where
  "is_PickModel (PickModel w i) = True"
| "is_PickModel e = False"

text \<open>
  The build discipline of Dialog: the loading flag is set exactly while one
  \<open>processRepo\<close> call is pending, that call has one step interval running, and the
  issue list stays empty until it settles.
\<close>

definition one_build :: "app \<Rightarrow> bool" where
  "one_build s \<longleftrightarrow>
     stepIntervals s = processRepo_pending s \<and>
     processRepo_pending s = (if dialog_loading s then 1 else 0) \<and>
     (dialog_loading s \<longrightarrow> issues s = JArr [])"

section \<open>Concrete states, errors and responses\<close>

definition issue7 :: jsval where
  "issue7 = JObj [(''id'', JNum 7), (''title'', JStr ''Crash on start'')]"

definition issue9 :: jsval where
  "issue9 = JObj [(''id'', JNum 9), (''title'', JStr ''Add dark mode'')]"

text \<open>A context after an earlier ingestion: one issue listed and selected, a summary.\<close>

definition ctx0 :: app where
  "ctx0 =
    \<lparr>selectedModel = ''gemini'',
     repoUrl = ''https://github.com/octo/repo'',
     issues = JArr [issue7],
     selectedIssue = JNum 7,
     summary = JStr ''A small library.'',
     chatMessages = [],
     dialog_loading = False,
     currentStep = 0,
     chat_input = [],
     chat_loading = False,
     stepIntervals = 0,
     processRepo_calls = [],
     processRepo_pending = 0,
     askAI_calls = [],
     askAI_pending = 0,
     alerts = [],
     rendered_chatMessages = []\<rparr>"

definition question :: string where
  "question = ''Why does it crash?''"

definition timeout_error :: js_error where
  "timeout_error =
    \<lparr>err_name = ''GenerationTimeoutError'', err_message = ''generation timed out''\<rparr>"

definition rejected_error :: js_error where
  "rejected_error =
    \<lparr>err_name = ''GenerationRejectedError'', err_message = ''input rejected''\<rparr>"

definition repo_response :: jsval where
  "repo_response =
    JObj [(''data'', JObj [(''issues'', JArr [issue7, issue9]),
                          (''summary'', JStr ''A parser and a printer.'')])]"

definition ask_response :: jsval where
  "ask_response = JObj [(''data'', JObj [(''response'', JStr ''Initialise the cache first.'')])]"

text \<open>Dialog while the ingestion of \<open>ctx0\<close>'s repository is in flight, one tick in.\<close>

definition fetching0 :: app where
  "fetching0 =
    (mount ctx0)\<lparr>dialog_loading := True,
                 currentStep := 1,
                 issues := JArr [],
                 selectedIssue := JNull,
                 stepIntervals := 1,
                 processRepo_calls :=
                   [JObj [(''url'', JStr ''https://github.com/octo/repo''),
                          (''model'', JStr ''gemini'')]],
                 processRepo_pending := 1\<rparr>"

text \<open>ChatUI with two earlier messages in the log and a question typed.\<close>

definition chatting0 :: app where
  "chatting0 =
    (mount ctx0)\<lparr>chatMessages :=
                   [\<lparr>msg_role = ''user'', msg_text = JStr ''Hello''\<rparr>,
                    \<lparr>msg_role = ''assistant'', msg_text = JStr ''Hi, ask me about the issue.''\<rparr>],
                 chat_input := question,
                 rendered_chatMessages :=
                   [\<lparr>msg_role = ''user'', msg_text = JStr ''Hello''\<rparr>,
                    \<lparr>msg_role = ''assistant'', msg_text = JStr ''Hi, ask me about the issue.''\<rparr>]\<rparr>"

text \<open>ChatUI with only a space, a tab and a no-break space typed.\<close>

definition blank0 :: app where
  "blank0 = chatting0\<lparr>chat_input := [CHR 0x20, CHR 0x09, CHR 0xA0]\<rparr>"

text \<open>What the render of \<open>mount ctx0\<close> shows.\<close>

definition view0 :: view where
  "view0 =
    \<lparr>fetch_disabled = False,
     fetch_label = JStr ''Fetch Issues & Analyze'',
     dialog_models = modelOptions_Dialog,
     sidebar_models = modelOptions_Sidebar,
     issue_values = [JNum 7],
     send_disabled = True\<rparr>"

text \<open>A response that has neither an issue list nor a summary.\<close>

definition bare_response :: jsval where
  "bare_response = JObj [(''data'', JObj [])]"

text \<open>A response whose issue list and summary are numbers.\<close>

definition odd_response :: jsval where
  "odd_response = JObj [(''data'', JObj [(''issues'', JNum 0), (''summary'', JNum 5)])]"

text \<open>\<open>chatting0\<close> over the other repository: same log, selection and question.\<close>

definition chatting1 :: app where
  "chatting1 = chatting0\<lparr>repoUrl := ''https://github.com/other/project'',
                          summary := JStr ''A compiler.''\<rparr>"

text \<open>\<open>chatting0\<close> after its question was sent and the call was rejected.\<close>

definition error_shown0 :: app where
  "error_shown0 =
    chatting0\<lparr>chatMessages :=
                [\<lparr>msg_role = ''user'', msg_text = JStr ''Hello''\<rparr>,
                 \<lparr>msg_role = ''assistant'', msg_text = JStr ''Hi, ask me about the issue.''\<rparr>,
                 \<lparr>msg_role = ''user'', msg_text = JStr question\<rparr>,
                 \<lparr>msg_role = ''assistant'', msg_text = JStr ''Error occurred''\<rparr>],
              chat_input := [],
              askAI_calls :=
                [JObj [(''issue_id'', JNum 7), (''prompt'', JStr question), (''model'', JStr ''gemini'')]]\<rparr>"

text \<open>\<open>mount ctx0\<close> after a click on Fetch whose call was rejected with the timeout.\<close>

definition failed0 :: app where
  "failed0 =
    (mount ctx0)\<lparr>issues := JArr [],
                 selectedIssue := JNull,
                 processRepo_calls :=
                   [JObj [(''url'', JStr ''https://github.com/octo/repo''),
                          (''model'', JStr ''gemini'')]],
                 alerts := [''Error: generation timed out'']\<rparr>"

text \<open>
  An ingestion with Gemini selected, then a question about issue 7: with the model
  switched to Groq in the Sidebar in between (\<open>switched0\<close>), and without (\<open>kept0\<close>).
\<close>

definition kept0 :: app where
  "kept0 =
    (mount ctx0)\<lparr>issues := JArr [issue7, issue9],
                 selectedIssue := JNum 7,
                 summary := JStr ''A parser and a printer.'',
                 chatMessages := [\<lparr>msg_role = ''user'', msg_text = JStr question\<rparr>],
                 chat_loading := True,
                 processRepo_calls :=
                   [JObj [(''url'', JStr ''https://github.com/octo/repo''),
                          (''model'', JStr ''gemini'')]],
                 askAI_calls :=
                   [JObj [(''issue_id'', JNum 7), (''prompt'', JStr question),
                          (''model'', JStr ''gemini'')]],
                 askAI_pending := 1,
                 rendered_chatMessages := [\<lparr>msg_role = ''user'', msg_text = JStr question\<rparr>]\<rparr>"

definition switched0 :: app where
  "switched0 =
    kept0\<lparr>selectedModel := ''groq'',
           askAI_calls :=
             [JObj [(''issue_id'', JNum 7), (''prompt'', JStr question),
                    (''model'', JStr ''groq'')]]\<rparr>"

text \<open>\<open>mount ctx0\<close> after the question was typed and Send was clicked.\<close>

definition asked0 :: app where
  "asked0 =
    (mount ctx0)\<lparr>chatMessages := [\<lparr>msg_role = ''user'', msg_text = JStr question\<rparr>],
                 chat_loading := True,
                 askAI_calls :=
                   [JObj [(''issue_id'', JNum 7), (''prompt'', JStr question),
                          (''model'', JStr ''gemini'')]],
                 askAI_pending := 1,
                 rendered_chatMessages := [\<lparr>msg_role = ''user'', msg_text = JStr question\<rparr>]\<rparr>"

text \<open>
  ChatUI after a first question was sent, a second was typed and the reply to the first
  arrived: the reply is in the log, the last render does not show it yet.
\<close>

definition replied0 :: app where
  "replied0 =
    (mount ctx0)\<lparr>chatMessages :=
                   [\<lparr>msg_role = ''user'', msg_text = JStr ''first''\<rparr>,
                    \<lparr>msg_role = ''assistant'', msg_text = JStr ''Initialise the cache first.''\<rparr>],
                 chat_input := ''second'',
                 askAI_calls :=
                   [JObj [(''issue_id'', JNum 7), (''prompt'', JStr ''first''),
                          (''model'', JStr ''gemini'')]],
                 rendered_chatMessages := [\<lparr>msg_role = ''user'', msg_text = JStr ''first''\<rparr>]\<rparr>"

text \<open>\<open>replied0\<close> after Enter was pressed at once, and after it was pressed once rendered.\<close>

definition dropped0 :: app where
  "dropped0 =
    replied0\<lparr>chatMessages :=
               [\<lparr>msg_role = ''user'', msg_text = JStr ''first''\<rparr>,
                \<lparr>msg_role = ''user'', msg_text = JStr ''second''\<rparr>],
             chat_input := [],
             chat_loading := True,
             askAI_calls :=
               [JObj [(''issue_id'', JNum 7), (''prompt'', JStr ''first''),
                      (''model'', JStr ''gemini'')],
                JObj [(''issue_id'', JNum 7), (''prompt'', JStr ''second''),
                      (''model'', JStr ''gemini'')]],
             askAI_pending := 1,
             rendered_chatMessages :=
               [\<lparr>msg_role = ''user'', msg_text = JStr ''first''\<rparr>,
                \<lparr>msg_role = ''user'', msg_text = JStr ''second''\<rparr>]\<rparr>"

definition appended0 :: app where
  "appended0 =
    dropped0\<lparr>chatMessages :=
               [\<lparr>msg_role = ''user'', msg_text = JStr ''first''\<rparr>,
                \<lparr>msg_role = ''assistant'', msg_text = JStr ''Initialise the cache first.''\<rparr>,
                \<lparr>msg_role = ''user'', msg_text = JStr ''second''\<rparr>],
             rendered_chatMessages :=
               [\<lparr>msg_role = ''user'', msg_text = JStr ''first''\<rparr>,
                \<lparr>msg_role = ''assistant'', msg_text = JStr ''Initialise the cache first.''\<rparr>,
                \<lparr>msg_role = ''user'', msg_text = JStr ''second''\<rparr>]\<rparr>"

section \<open>Auxiliary facts\<close>

subsection \<open>Strings and property reads\<close>

lemma dropWhile_all_iff: "(\<forall>x\<in>set (dropWhile P xs). P x) \<longleftrightarrow> dropWhile P xs = []"
proof
  assume all: "\<forall>x\<in>set (dropWhile P xs). P x"
  show "dropWhile P xs = []"
  proof (rule ccontr)
    assume ne: "dropWhile P xs \<noteq> []"
    then have "\<not> P (hd (dropWhile P xs))" by (rule hd_dropWhile)
    moreover from ne have "hd (dropWhile P xs) \<in> set (dropWhile P xs)" by simp
    ultimately show False using all by blast
  qed
next
  assume e: "dropWhile P xs = []"
  show "\<forall>x\<in>set (dropWhile P xs). P x" unfolding e by simp
qed

lemma trim_empty_iff: "trim s = [] \<longleftrightarrow> (\<forall>c\<in>set s. js_space c)"
proof -
  have "trim s = [] \<longleftrightarrow> (\<forall>x\<in>set (dropWhile js_space s). js_space x)"
    by (simp add: trim_def)
  also have "\<dots> \<longleftrightarrow> dropWhile js_space s = []" by (rule dropWhile_all_iff)
  also have "\<dots> \<longleftrightarrow> (\<forall>c\<in>set s. js_space c)" by simp
  finally show ?thesis .
qed

lemma get_prop_defined: "get_prop d k = Inr x \<Longrightarrow> \<exists>y. get_prop d k' = Inr y"
  by (cases d) auto

subsection \<open>What each handler leaves alone\<close>

lemma fetchRepo_try_Inl: "fetchRepo_try res s = Inl (e, s') \<Longrightarrow> s' = s"
proof (cases "get_prop res ''data''")
  case (Inl e1)
  then show "fetchRepo_try res s = Inl (e, s') \<Longrightarrow> s' = s" by (simp add: fetchRepo_try_def)
next
  case d: (Inr d)
  show "fetchRepo_try res s = Inl (e, s') \<Longrightarrow> s' = s"
  proof (cases "get_prop d ''issues''")
    case (Inl e1)
    with d show "fetchRepo_try res s = Inl (e, s') \<Longrightarrow> s' = s" by (simp add: fetchRepo_try_def)
  next
    case (Inr i)
    then obtain m where "get_prop d ''summary'' = Inr m" using get_prop_defined by blast
    with d Inr show "fetchRepo_try res s = Inl (e, s') \<Longrightarrow> s' = s"
      by (simp add: fetchRepo_try_def Let_def)
  qed
qed

lemma fetchRepo_try_Inr:
  "fetchRepo_try res s = Inr s' \<Longrightarrow> \<exists>i m. s' = s\<lparr>issues := i, summary := m\<rparr>"
  by (auto simp: fetchRepo_try_def Let_def split: sum.splits)

lemma fetchRepo_settle_frame:
  "dialog_loading (fetchRepo_settle outcome s) = False"
  "currentStep (fetchRepo_settle outcome s) = 0"
  "processRepo_pending (fetchRepo_settle outcome s) = processRepo_pending s - 1"
  "stepIntervals (fetchRepo_settle outcome s) = stepIntervals s - 1"
  "processRepo_calls (fetchRepo_settle outcome s) = processRepo_calls s"
  "askAI_calls (fetchRepo_settle outcome s) = askAI_calls s"
  "askAI_pending (fetchRepo_settle outcome s) = askAI_pending s"
  "chatMessages (fetchRepo_settle outcome s) = chatMessages s"
  "chat_input (fetchRepo_settle outcome s) = chat_input s"
  "chat_loading (fetchRepo_settle outcome s) = chat_loading s"
  "selectedModel (fetchRepo_settle outcome s) = selectedModel s"
  "selectedIssue (fetchRepo_settle outcome s) = selectedIssue s"
  "repoUrl (fetchRepo_settle outcome s) = repoUrl s"
  by (auto simp: fetchRepo_settle_def fetchRepo_finally_def fetchRepo_catch_def
      dest: fetchRepo_try_Inl fetchRepo_try_Inr split: sum.splits prod.splits)

lemma sendMessage_settle_frame:
  assumes "sendMessage_settle outcome s = Inr s'"
  shows "dialog_loading s' = dialog_loading s" "currentStep s' = currentStep s"
    "processRepo_pending s' = processRepo_pending s" "stepIntervals s' = stepIntervals s"
    "processRepo_calls s' = processRepo_calls s" "askAI_calls s' = askAI_calls s"
    "selectedModel s' = selectedModel s" "issues s' = issues s"
  using assms by (auto simp: sendMessage_settle_def split: sum.splits)

lemma sendMessage_start_frame:
  "dialog_loading (sendMessage_start r s) = dialog_loading s"
  "currentStep (sendMessage_start r s) = currentStep s"
  "processRepo_pending (sendMessage_start r s) = processRepo_pending s"
  "stepIntervals (sendMessage_start r s) = stepIntervals s"
  "processRepo_calls (sendMessage_start r s) = processRepo_calls s"
  "selectedModel (sendMessage_start r s) = selectedModel s"
  "issues (sendMessage_start r s) = issues s"
  by (auto simp: sendMessage_start_def)

lemma fetchRepo_start_frame:
  "askAI_calls (fetchRepo_start r s) = askAI_calls s"
  "askAI_pending (fetchRepo_start r s) = askAI_pending s"
  "chatMessages (fetchRepo_start r s) = chatMessages s"
  "chat_input (fetchRepo_start r s) = chat_input s"
  "chat_loading (fetchRepo_start r s) = chat_loading s"
  "selectedModel (fetchRepo_start r s) = selectedModel s"
  "repoUrl (fetchRepo_start r s) = repoUrl s"
  "summary (fetchRepo_start r s) = summary s"
  by (auto simp: fetchRepo_start_def)

lemma handler_render_frame:
  "dialog_loading (handler_render s s') = dialog_loading s'"
  "currentStep (handler_render s s') = currentStep s'"
  "processRepo_pending (handler_render s s') = processRepo_pending s'"
  "stepIntervals (handler_render s s') = stepIntervals s'"
  "processRepo_calls (handler_render s s') = processRepo_calls s'"
  "askAI_calls (handler_render s s') = askAI_calls s'"
  "selectedModel (handler_render s s') = selectedModel s'"
  "issues (handler_render s s') = issues s'"
  by (simp_all add: handler_render_def)

lemma last_render_frame:
  "repoUrl (last_render s) = repoUrl s"
  "selectedModel (last_render s) = selectedModel s"
  "selectedIssue (last_render s) = selectedIssue s"
  "chat_input (last_render s) = chat_input s"
  by (simp_all add: last_render_def)

lemma stepInterval_tick_frame:
  "askAI_calls (stepInterval_tick s) = askAI_calls s"
  "processRepo_calls (stepInterval_tick s) = processRepo_calls s"
  "chatMessages (stepInterval_tick s) = chatMessages s"
  "selectedModel (stepInterval_tick s) = selectedModel s"
  by (auto simp: stepInterval_tick_def)

subsection \<open>Steps and runs\<close>

lemma step_Inr: "step e s = Inr s' \<Longrightarrow> \<exists>v. render s = Inr v \<and> dispatch v e s = Inr s'"
  by (auto simp: step_def split: sum.splits)

lemma render_Inr:
  assumes "render s = Inr v"
  shows "fetch_disabled v = dialog_loading s"
    and "dialog_models v = modelOptions_Dialog"
    and "sidebar_models v = modelOptions_Sidebar"
    and "send_disabled v = (chat_loading s \<or> trim (chat_input s) = [])"
    and "fetch_label v = (if dialog_loading s then js_index PROCESSING_STEPS (currentStep s)
                          else JStr ''Fetch Issues & Analyze'')"
  using assms by (auto simp: render_def split: sum.splits)

lemma run_invariant:
  assumes "P s" and "\<And>e s s'. P s \<Longrightarrow> step e s = Inr s' \<Longrightarrow> P s'" and "run evs s = Inr s'"
  shows "P s'"
  using assms(1,3)
proof (induction evs arbitrary: s)
  case Nil
  then show ?case by simp
next
  case (Cons e evs)
  from Cons.prems(2) obtain s1 where s1: "step e s = Inr s1" and r: "run evs s1 = Inr s'"
    by (auto split: sum.splits)
  from Cons.prems(1) s1 have "P s1" by (rule assms(2))
  then show ?case using r by (rule Cons.IH)
qed

subsection \<open>The build discipline holds in every state reached\<close>

lemma one_build_dispatch:
  assumes "one_build s" and "render s = Inr v" and "dispatch v e s = Inr s'"
  shows "one_build s'"
proof (cases e)
  case ClickFetch
  with assms show ?thesis
    by (auto simp: one_build_def render_Inr fetchRepo_start_def last_render_frame split: if_splits)
next
  case Tick
  with assms show ?thesis by (auto simp: one_build_def stepInterval_tick_def split: if_splits)
next
  case (ProcessRepoSettled outcome)
  with assms show ?thesis
    by (auto simp: one_build_def fetchRepo_settle_frame split: if_splits)
next
  case (PickModel w i)
  with assms show ?thesis
    by (cases w) (auto simp: one_build_def CustomSelect_click_def split: if_splits)
next
  case (AskAISettled outcome)
  with assms show ?thesis
    by (auto simp: one_build_def sendMessage_settle_frame split: if_splits)
qed (use assms in \<open>auto simp: one_build_def CustomSelect_click_def sendMessage_start_frame handler_render_frame split: if_splits\<close>)

lemma one_build_step: "one_build s \<Longrightarrow> step e s = Inr s' \<Longrightarrow> one_build s'"
  using one_build_dispatch step_Inr by blast

lemma one_build_mount: "one_build (mount c)"
  by (simp add: one_build_def mount_def)

lemma one_build_run:
  assumes "run evs (mount c) = Inr s"
  shows "one_build s"
  by (rule run_invariant [where P = one_build, OF one_build_mount _ assms]) (rule one_build_step)

subsection \<open>How a step moves the step index\<close>

lemma dispatch_currentStep:
  assumes "dispatch v e s = Inr s'"
  shows "currentStep s' = currentStep s \<or> currentStep s' = 0
     \<or> (currentStep s < int (length PROCESSING_STEPS) - 1 \<and> currentStep s' = currentStep s + 1)"
proof (cases e)
  case ClickFetch
  with assms show ?thesis by (auto simp: fetchRepo_start_def last_render_frame split: if_splits)
next
  case Tick
  with assms show ?thesis by (auto simp: stepInterval_tick_def split: if_splits)
next
  case (ProcessRepoSettled outcome)
  with assms show ?thesis by (auto simp: fetchRepo_settle_frame split: if_splits)
next
  case (PickModel w i)
  with assms show ?thesis by (cases w) (auto simp: CustomSelect_click_def split: if_splits)
next
  case (AskAISettled outcome)
  with assms show ?thesis by (auto simp: sendMessage_settle_frame split: if_splits)
qed (use assms in \<open>auto simp: CustomSelect_click_def sendMessage_start_frame handler_render_frame split: if_splits\<close>)

subsection \<open>The calls a step makes\<close>

lemma dispatch_askAI_calls:
  assumes "dispatch v e s = Inr s'"
  shows "askAI_calls s' = askAI_calls s
     \<or> (trim (chat_input s) \<noteq> [] \<and>
         askAI_calls s' = askAI_calls s @
           [JObj [(''issue_id'', selectedIssue s), (''prompt'', JStr (chat_input s)),
                  (''model'', JStr (selectedModel s))]])"
proof (cases e)
  case ClickFetch
  with assms show ?thesis by (auto simp: fetchRepo_start_frame split: if_splits)
next
  case Tick
  with assms show ?thesis by (auto simp: stepInterval_tick_frame split: if_splits)
next
  case (ProcessRepoSettled outcome)
  with assms show ?thesis by (auto simp: fetchRepo_settle_frame split: if_splits)
next
  case (PickModel w i)
  with assms show ?thesis by (cases w) (auto simp: CustomSelect_click_def split: if_splits)
next
  case (KeyPress k shift)
  with assms show ?thesis
    by (auto simp: sendMessage_start_def handler_render_frame last_render_frame split: if_splits)
next
  case ClickSend
  with assms show ?thesis
    by (auto simp: sendMessage_start_def handler_render_frame last_render_frame split: if_splits)
next
  case (AskAISettled outcome)
  with assms show ?thesis by (auto simp: sendMessage_settle_frame split: if_splits)
qed (use assms in \<open>auto simp: CustomSelect_click_def split: if_splits\<close>)

lemma dispatch_processRepo_calls:
  assumes "dispatch v e s = Inr s'"
  shows "processRepo_calls s' = processRepo_calls s
     \<or> processRepo_calls s' = processRepo_calls s @
           [JObj [(''url'', JStr (trim (repoUrl s))), (''model'', JStr (selectedModel s))]]"
proof (cases e)
  case ClickFetch
  with assms show ?thesis by (auto simp: fetchRepo_start_def last_render_frame split: if_splits)
next
  case Tick
  with assms show ?thesis by (auto simp: stepInterval_tick_frame split: if_splits)
next
  case (ProcessRepoSettled outcome)
  with assms show ?thesis by (auto simp: fetchRepo_settle_frame split: if_splits)
next
  case (PickModel w i)
  with assms show ?thesis by (cases w) (auto simp: CustomSelect_click_def split: if_splits)
next
  case (AskAISettled outcome)
  with assms show ?thesis by (auto simp: sendMessage_settle_frame split: if_splits)
qed (use assms in \<open>auto simp: CustomSelect_click_def sendMessage_start_frame handler_render_frame split: if_splits\<close>)

lemma dispatch_selectedModel:
  assumes "dispatch v e s = Inr s'" and "\<not> is_PickModel e"
  shows "selectedModel s' = selectedModel s"
proof (cases e)
  case ClickFetch
  with assms show ?thesis by (auto simp: fetchRepo_start_frame split: if_splits)
next
  case Tick
  with assms show ?thesis by (auto simp: stepInterval_tick_frame split: if_splits)
next
  case (ProcessRepoSettled outcome)
  with assms show ?thesis by (auto simp: fetchRepo_settle_frame split: if_splits)
next
  case (AskAISettled outcome)
  with assms show ?thesis by (auto simp: sendMessage_settle_frame split: if_splits)
qed (use assms in \<open>auto simp: CustomSelect_click_def sendMessage_start_frame handler_render_frame split: if_splits\<close>)

section \<open>Dialog: one ingestion at a time, and the step shown\<close>

text \<open>
  C5. While an ingestion request is in flight no second one can be started: in every
  state the mounted components reach, at most one \<open>processRepo\<close> call is pending, the
  loading flag is set exactly while one is, and a click on Fetch while loading (the
  button is disabled) changes nothing, so it starts no call.
\<close>

theorem at_most_one_fetchRepo:
  assumes "run evs (mount c) = Inr s"
  shows "processRepo_pending s \<le> 1
     \<and> (dialog_loading s \<longleftrightarrow> processRepo_pending s = 1)
     \<and> (dialog_loading s \<longrightarrow> step ClickFetch s = Inr s)"
proof -
  from assms have ob: "one_build s" by (rule one_build_run)
  then have "processRepo_pending s \<le> 1" "dialog_loading s \<longleftrightarrow> processRepo_pending s = 1"
    by (auto simp: one_build_def split: if_splits)
  moreover have "step ClickFetch s = Inr s" if "dialog_loading s"
    using that ob by (simp add: one_build_def step_def render_def)
  ultimately show ?thesis by blast
qed

theorem at_most_one_fetchRepo_witness:
  "run [ClickFetch, Tick, ClickFetch] (mount ctx0) = Inr fetching0
   \<and> processRepo_pending fetching0 \<le> 1
   \<and> dialog_loading fetching0
   \<and> step ClickFetch fetching0 = Inr fetching0"
proof -
  have r: "run [ClickFetch, Tick, ClickFetch] (mount ctx0) = Inr fetching0" by code_simp
  have l: "dialog_loading fetching0" by (simp add: fetching0_def)
  from at_most_one_fetchRepo [OF r] l r show ?thesis by simp
qed

text \<open>
  C10. The progress-step index is always a valid index into \<open>PROCESSING_STEPS\<close>: in
  every state the mounted components reach, \<open>0 \<le> currentStep \<le> PROCESSING_STEPS.length - 1\<close>,
  so \<open>PROCESSING_STEPS[currentStep]\<close> is one of the step strings and the Fetch button
  always shows a string.
\<close>

theorem currentStep_in_range:
  assumes "run evs (mount c) = Inr s"
  shows "0 \<le> currentStep s \<and> currentStep s \<le> int (length PROCESSING_STEPS) - 1
     \<and> (\<exists>t. js_index PROCESSING_STEPS (currentStep s) = JStr t \<and> t \<in> set PROCESSING_STEPS)
     \<and> (\<forall>v. render s = Inr v \<longrightarrow> (\<exists>t. fetch_label v = JStr t))"
proof -
  let ?P = "\<lambda>s. 0 \<le> currentStep s \<and> currentStep s \<le> int (length PROCESSING_STEPS) - 1"
  have len: "length PROCESSING_STEPS = 7" by (simp add: PROCESSING_STEPS_def)
  have init: "?P (mount c)" by (simp add: mount_def len)
  have keep: "?P s'" if "?P s" and "step e s = Inr s'" for e s s'
  proof -
    from that(2) obtain v where "dispatch v e s = Inr s'" using step_Inr by blast
    from dispatch_currentStep [OF this] that(1) show ?thesis
      unfolding len by auto
  qed
  have range: "?P s" by (rule run_invariant [where P = ?P, OF init keep assms])
  then have "nat (currentStep s) < length PROCESSING_STEPS"
    unfolding len by arith
  then have "PROCESSING_STEPS ! nat (currentStep s) \<in> set PROCESSING_STEPS"
    by (rule nth_mem)
  with range have shown:
    "\<exists>t. js_index PROCESSING_STEPS (currentStep s) = JStr t \<and> t \<in> set PROCESSING_STEPS"
    by (simp add: js_index_def)
  then have "\<exists>t. fetch_label v = JStr t" if "render s = Inr v" for v
    using render_Inr(5) [OF that] by auto
  with range shown show ?thesis by blast
qed

theorem currentStep_in_range_witness:
  "run [ClickFetch, Tick, ClickFetch] (mount ctx0) = Inr fetching0
   \<and> currentStep fetching0 = 1
   \<and> js_index PROCESSING_STEPS (currentStep fetching0) = JStr ''Cloning Repository...''"
proof -
  have r: "run [ClickFetch, Tick, ClickFetch] (mount ctx0) = Inr fetching0" by code_simp
  have "js_index PROCESSING_STEPS (currentStep fetching0) = JStr ''Cloning Repository...''"
    by code_simp
  with currentStep_in_range [OF r] r show ?thesis by (simp add: fetching0_def)
qed

section \<open>Dialog: what a response publishes, and the model options\<close>

text \<open>
  C6, as the code has it. For every successful ingestion response (the call resolved
  with \<open>res\<close> and \<open>res.data\<close> could be read), the issue list published is the
  response's \<open>issues\<close> field where that is truthy and the empty list otherwise, and the
  summary stored is its \<open>summary\<close> field where that is truthy and the empty string
  otherwise. So the summary is never \<open>undefined\<close>; where the \<open>issues\<close> field is an
  array or absent (\<open>undefined\<close> or \<open>null\<close>), the issue list is that array, or the empty
  list when absent; where the \<open>summary\<close> field is a string or absent, the summary is
  that string, or the empty string when absent, and so a string.
\<close>

theorem processRepo_response_published:
  assumes "get_prop res ''data'' = Inr d"
    and "get_prop d ''issues'' = Inr i"
    and "get_prop d ''summary'' = Inr m"
  shows "issues (fetchRepo_settle (Inr res) s) = (if truthy i then i else JArr [])
     \<and> summary (fetchRepo_settle (Inr res) s) = (if truthy m then m else JStr [])
     \<and> summary (fetchRepo_settle (Inr res) s) \<noteq> JUndefined
     \<and> (i = JUndefined \<or> i = JNull \<or> (\<exists>xs. i = JArr xs) \<longrightarrow>
          issues (fetchRepo_settle (Inr res) s) =
            (if i = JUndefined \<or> i = JNull then JArr [] else i))
     \<and> (m = JUndefined \<or> m = JNull \<or> (\<exists>t. m = JStr t) \<longrightarrow>
          summary (fetchRepo_settle (Inr res) s) =
            (if m = JUndefined \<or> m = JNull then JStr [] else m)
          \<and> (\<exists>t. summary (fetchRepo_settle (Inr res) s) = JStr t))
     \<and> alerts (fetchRepo_settle (Inr res) s) = alerts s
     \<and> \<not> dialog_loading (fetchRepo_settle (Inr res) s)"
proof -
  let ?s' = "fetchRepo_settle (Inr res) s"
  from assms have body: "fetchRepo_try res s =
      Inr (s\<lparr>issues := js_or i (JArr []), summary := js_or m (JStr [])\<rparr>)"
    by (simp add: fetchRepo_try_def Let_def)
  then have iss: "issues ?s' = js_or i (JArr [])" and sm: "summary ?s' = js_or m (JStr [])"
    and al: "alerts ?s' = alerts s" and ld: "\<not> dialog_loading ?s'"
    by (simp_all add: fetchRepo_settle_def fetchRepo_finally_def)
  from iss sm have 0: "issues ?s' = (if truthy i then i else JArr [])"
    "summary ?s' = (if truthy m then m else JStr [])"
    by (simp_all add: js_or_def)
  have "js_or m (JStr []) \<noteq> JUndefined" by (cases m) (auto simp: js_or_def)
  with sm have 1: "summary ?s' \<noteq> JUndefined" by simp
  have 2: "issues ?s' = (if i = JUndefined \<or> i = JNull then JArr [] else i)"
    if "i = JUndefined \<or> i = JNull \<or> (\<exists>xs. i = JArr xs)"
    using that iss by (auto simp: js_or_def)
  have 3: "summary ?s' = (if m = JUndefined \<or> m = JNull then JStr [] else m)
      \<and> (\<exists>t. summary ?s' = JStr t)"
    if "m = JUndefined \<or> m = JNull \<or> (\<exists>t. m = JStr t)"
    using that sm by (auto simp: js_or_def)
  from 0 1 2 3 al ld show ?thesis by blast
qed

theorem processRepo_response_published_witness:
  "issues (fetchRepo_settle (Inr repo_response) fetching0) = JArr [issue7, issue9]
   \<and> summary (fetchRepo_settle (Inr repo_response) fetching0) = JStr ''A parser and a printer.''
   \<and> issues (fetchRepo_settle (Inr bare_response) fetching0) = JArr []
   \<and> summary (fetchRepo_settle (Inr bare_response) fetching0) = JStr []"
proof -
  have d: "get_prop repo_response ''data'' =
      Inr (JObj [(''issues'', JArr [issue7, issue9]), (''summary'', JStr ''A parser and a printer.'')])"
    by (simp add: repo_response_def)
  have i: "get_prop (JObj [(''issues'', JArr [issue7, issue9]), (''summary'', JStr ''A parser and a printer.'')])
      ''issues'' = Inr (JArr [issue7, issue9])"
    by simp
  have m: "get_prop (JObj [(''issues'', JArr [issue7, issue9]), (''summary'', JStr ''A parser and a printer.'')])
      ''summary'' = Inr (JStr ''A parser and a printer.'')"
    by simp
  have d': "get_prop bare_response ''data'' = Inr (JObj [])" by (simp add: bare_response_def)
  have i': "get_prop (JObj []) ''issues'' = Inr JUndefined" by simp
  have m': "get_prop (JObj []) ''summary'' = Inr JUndefined" by simp
  from processRepo_response_published [OF d i m, of fetching0]
    processRepo_response_published [OF d' i' m', of fetching0]
  show ?thesis by simp
qed

text \<open>
  C6 as stated fails: a response whose summary is the number 5 and whose issue list is
  the number 0 resolves; the summary stored is 5, no string, and the issue list
  published is the empty list though the field is there and is not that.
\<close>

theorem processRepo_response_not_copied:
  "get_prop odd_response ''data'' = Inr (JObj [(''issues'', JNum 0), (''summary'', JNum 5)])
   \<and> get_prop (JObj [(''issues'', JNum 0), (''summary'', JNum 5)]) ''issues'' = Inr (JNum 0)
   \<and> get_prop (JObj [(''issues'', JNum 0), (''summary'', JNum 5)]) ''summary'' = Inr (JNum 5)
   \<and> summary (fetchRepo_settle (Inr odd_response) fetching0) = JNum 5
   \<and> issues (fetchRepo_settle (Inr odd_response) fetching0) = JArr []"
proof -
  have 1: "get_prop odd_response ''data'' = Inr (JObj [(''issues'', JNum 0), (''summary'', JNum 5)])"
    by (simp add: odd_response_def)
  have 2: "get_prop (JObj [(''issues'', JNum 0), (''summary'', JNum 5)]) ''issues'' = Inr (JNum 0)"
    "get_prop (JObj [(''issues'', JNum 0), (''summary'', JNum 5)]) ''summary'' = Inr (JNum 5)"
    by simp_all
  have 3: "summary (fetchRepo_settle (Inr odd_response) fetching0) = JNum 5" by code_simp
  have 4: "issues (fetchRepo_settle (Inr odd_response) fetching0) = JArr []" by code_simp
  from 1 2 3 4 show ?thesis by blast
qed

text \<open>
  C7. In every render both model selects, Dialog's and Sidebar's, list exactly the two
  options with values \<open>"gemini"\<close> and \<open>"groq"\<close>, and what the user can choose is one of
  the two: a click on a listed option sets the selected model to one of these values,
  and there is no third option to click.
\<close>

theorem model_options_two:
  assumes "render s = Inr v"
  shows "map opt_value (dialog_models v) = [''gemini'', ''groq'']
     \<and> map opt_value (sidebar_models v) = [''gemini'', ''groq'']
     \<and> (\<forall>i<2. \<exists>s'. dispatch v (PickModel w i) s = Inr s'
            \<and> (selectedModel s' = ''gemini'' \<or> selectedModel s' = ''groq''))
     \<and> (\<forall>i\<ge>2. dispatch v (PickModel w i) s = Inr s)"
proof -
  have dm: "map opt_value (dialog_models v) = [''gemini'', ''groq'']"
    and sm: "map opt_value (sidebar_models v) = [''gemini'', ''groq'']"
    using render_Inr(2,3) [OF assms] by (simp_all add: modelOptions_Dialog_def modelOptions_Sidebar_def)
  have pick: "\<exists>s'. dispatch v (PickModel w i) s = Inr s'
      \<and> (selectedModel s' = ''gemini'' \<or> selectedModel s' = ''groq'')" if "i < 2" for i
  proof -
    from that have "i = 0 \<or> i = 1" by arith
    then show ?thesis by (cases w) (auto simp: dm sm CustomSelect_click_def)
  qed
  have none: "dispatch v (PickModel w i) s = Inr s" if "2 \<le> i" for i
    using that by (cases w) (simp_all add: dm sm CustomSelect_click_def)
  from dm sm pick none show ?thesis by blast
qed

theorem model_options_two_witness:
  "render (mount ctx0) = Inr view0
   \<and> map opt_value (dialog_models view0) = [''gemini'', ''groq'']
   \<and> map opt_value (sidebar_models view0) = [''gemini'', ''groq'']
   \<and> dispatch view0 (PickModel InSidebar 1) (mount ctx0) = Inr ((mount ctx0)\<lparr>selectedModel := ''groq''\<rparr>)"
proof -
  have r: "render (mount ctx0) = Inr view0" by code_simp
  have p: "dispatch view0 (PickModel InSidebar 1) (mount ctx0) = Inr ((mount ctx0)\<lparr>selectedModel := ''groq''\<rparr>)"
    by code_simp
  from model_options_two [OF r] r p show ?thesis by blast
qed

section \<open>ChatUI: the chat log and blank input\<close>

text \<open>
  C8 does not hold of the code. \<open>sendMessage\<close> writes back the chat log of its render
  with the user's message added (\<open>setChatMessages([...chatMessages, ...])\<close>), where the
  two replies add to the current log (\<open>m => [...m, ...]\<close>); and the Enter key calls it
  whether or not a reply is pending. Sent by a handler whose render is a reply behind,
  a question takes that reply out of the log. Here a first question is sent, a second
  is typed, the reply to the first arrives (\<open>replied0\<close>) and Enter is pressed before
  React has rendered it: the log was the first question and its reply, and is the two
  questions (\<open>dropped0\<close>). Pressed after the render, Enter adds the second question to
  the log (\<open>appended0\<close>).
\<close>

theorem stale_send_drops_reply:
  "run [ChangeInput ''first'', KeyPress ''Enter'' False, ChangeInput ''second'',
        AskAISettled (Inr ask_response)] (mount ctx0) = Inr replied0
   \<and> chatMessages replied0 =
       [\<lparr>msg_role = ''user'', msg_text = JStr ''first''\<rparr>,
        \<lparr>msg_role = ''assistant'', msg_text = JStr ''Initialise the cache first.''\<rparr>]
   \<and> run [KeyPress ''Enter'' False] replied0 = Inr dropped0
   \<and> chatMessages dropped0 =
       [\<lparr>msg_role = ''user'', msg_text = JStr ''first''\<rparr>,
        \<lparr>msg_role = ''user'', msg_text = JStr ''second''\<rparr>]
   \<and> run [Render, KeyPress ''Enter'' False] replied0 = Inr appended0
   \<and> chatMessages appended0 =
       [\<lparr>msg_role = ''user'', msg_text = JStr ''first''\<rparr>,
        \<lparr>msg_role = ''assistant'', msg_text = JStr ''Initialise the cache first.''\<rparr>,
        \<lparr>msg_role = ''user'', msg_text = JStr ''second''\<rparr>]"
proof -
  have 1: "run [ChangeInput ''first'', KeyPress ''Enter'' False, ChangeInput ''second'',
        AskAISettled (Inr ask_response)] (mount ctx0) = Inr replied0"
    by code_simp
  have 2: "run [KeyPress ''Enter'' False] replied0 = Inr dropped0" by code_simp
  have 3: "run [Render, KeyPress ''Enter'' False] replied0 = Inr appended0" by code_simp
  have 4: "chatMessages replied0 =
       [\<lparr>msg_role = ''user'', msg_text = JStr ''first''\<rparr>,
        \<lparr>msg_role = ''assistant'', msg_text = JStr ''Initialise the cache first.''\<rparr>]"
    by (simp add: replied0_def)
  have 5: "chatMessages dropped0 =
       [\<lparr>msg_role = ''user'', msg_text = JStr ''first''\<rparr>,
        \<lparr>msg_role = ''user'', msg_text = JStr ''second''\<rparr>]"
    by (simp add: dropped0_def)
  have 6: "chatMessages appended0 =
       [\<lparr>msg_role = ''user'', msg_text = JStr ''first''\<rparr>,
        \<lparr>msg_role = ''assistant'', msg_text = JStr ''Initialise the cache first.''\<rparr>,
        \<lparr>msg_role = ''user'', msg_text = JStr ''second''\<rparr>]"
    by (simp add: appended0_def)
  from 1 2 3 4 5 6 show ?thesis by blast
qed

theorem stale_send_drops_reply_witness:
  "run [KeyPress ''Enter'' False] replied0 = Inr dropped0
   \<and> \<not> prefix (chatMessages replied0) (chatMessages dropped0)
   \<and> prefix (chatMessages replied0) (chatMessages appended0)"
  using stale_send_drops_reply by (simp add: prefix_def)

text \<open>
  C9. On an input that is empty or only white space \<open>sendMessage\<close> is a no-op: the
  state it returns is the state it was given, so no \<open>askAI\<close> call is made and the chat
  log, the input field and the loading flag are unchanged; so it is for the Enter key
  and for the Send button.
\<close>

theorem sendMessage_blank_noop:
  "((\<forall>c\<in>set (chat_input r). js_space c) \<longrightarrow> sendMessage_start r s = s)
   \<and> ((\<forall>c\<in>set (chat_input s). js_space c) \<longrightarrow>
        dispatch v (KeyPress k shift) s = Inr s \<and> dispatch v ClickSend s = Inr s)"
  by (simp add: sendMessage_start_def trim_empty_iff last_render_frame handler_render_def)

theorem sendMessage_blank_noop_witness:
  "sendMessage_start blank0 blank0 = blank0
   \<and> dispatch view0 (KeyPress ''Enter'' False) blank0 = Inr blank0
   \<and> sendMessage_start (mount ctx0) (mount ctx0) = mount ctx0"
proof -
  have b: "\<forall>c\<in>set (chat_input blank0). js_space c"
    by (simp add: blank0_def js_space_def)
  have e: "\<forall>c\<in>set (chat_input (mount ctx0)). js_space c"
    by (simp add: mount_def)
  from sendMessage_blank_noop [of blank0 blank0 view0 "''Enter''" False] b
    sendMessage_blank_noop [of "mount ctx0" "mount ctx0" view0 "''Enter''" False] e
  show ?thesis by blast
qed

section \<open>Failures: what the user sees and what is kept\<close>

text \<open>
  C1, as the code has it. On a rejected \<open>backend.askAI\<close> call \<open>sendMessage\<close> is not
  silent: it appends exactly one assistant message to the chat log and clears the
  loading flag. The message is the fixed text \<open>"Error occurred"\<close>, the same for every
  error: the error's kind and message are shown nowhere, neither in the log nor in an
  alert.
\<close>

theorem sendMessage_rejected_fixed_text:
  "\<exists>s'. sendMessage_settle (Inl err) s = Inr s'
     \<and> chatMessages s' =
         chatMessages s @ [\<lparr>msg_role = ''assistant'', msg_text = JStr ''Error occurred''\<rparr>]
     \<and> \<not> chat_loading s'
     \<and> alerts s' = alerts s
     \<and> sendMessage_settle (Inl err') s = Inr s'"
  by (simp add: sendMessage_settle_def)

theorem sendMessage_rejected_fixed_text_witness:
  "\<exists>s'. sendMessage_settle (Inl rejected_error) (sendMessage_start chatting0 chatting0) = Inr s'
     \<and> chatMessages s' =
         chatMessages (sendMessage_start chatting0 chatting0) @
           [\<lparr>msg_role = ''assistant'', msg_text = JStr ''Error occurred''\<rparr>]
     \<and> \<not> chat_loading s'
     \<and> alerts s' = alerts (sendMessage_start chatting0 chatting0)
     \<and> sendMessage_settle (Inl timeout_error) (sendMessage_start chatting0 chatting0) = Inr s'"
  by (rule sendMessage_rejected_fixed_text)

text \<open>
  C1 as stated fails: a call rejected with a GenerationTimeoutError and one rejected with
  a GenerationRejectedError leave the same state, whose last message is the placeholder.
\<close>

theorem sendMessage_error_kind_lost:
  "sendMessage_settle (Inl timeout_error) (sendMessage_start chatting0 chatting0) = Inr error_shown0
   \<and> sendMessage_settle (Inl rejected_error) (sendMessage_start chatting0 chatting0) = Inr error_shown0
   \<and> err_name timeout_error \<noteq> err_name rejected_error
   \<and> last (chatMessages error_shown0) =
       \<lparr>msg_role = ''assistant'', msg_text = JStr ''Error occurred''\<rparr>
   \<and> alerts error_shown0 = []"
proof -
  have 1: "sendMessage_settle (Inl timeout_error) (sendMessage_start chatting0 chatting0) = Inr error_shown0"
    by code_simp
  have 2: "sendMessage_settle (Inl rejected_error) (sendMessage_start chatting0 chatting0) = Inr error_shown0"
    by code_simp
  have 3: "err_name timeout_error \<noteq> err_name rejected_error"
    by (simp add: timeout_error_def rejected_error_def)
  have 4: "last (chatMessages error_shown0) =
       \<lparr>msg_role = ''assistant'', msg_text = JStr ''Error occurred''\<rparr>"
    by (simp add: error_shown0_def)
  have 5: "alerts error_shown0 = []"
    by (simp add: error_shown0_def chatting0_def mount_def)
  from 1 2 3 4 5 show ?thesis by blast
qed

text \<open>
  C2, as the code has it. A \<open>fetchRepo\<close> invocation that ends in an error (the call was
  rejected, or the response could not be read) leaves the summary exactly as it was, and
  with it the model selection, the URL and the chat log. The issue list and the selected
  issue are not kept: they are reset to the empty list and \<open>null\<close> before the request
  and stay so. The failure is reported by an alert with the error's message and the
  loading flag is cleared. An invocation refused for a blank URL only alerts.
\<close>

theorem fetchRepo_failure_effect:
  "(trim (repoUrl r) \<noteq> [] \<and>
      (outcome = Inl err \<or>
       (\<exists>res s'. outcome = Inr res \<and> fetchRepo_try res (fetchRepo_start r s) = Inl (err, s'))) \<longrightarrow>
      summary (fetchRepo_settle outcome (fetchRepo_start r s)) = summary s
      \<and> issues (fetchRepo_settle outcome (fetchRepo_start r s)) = JArr []
      \<and> selectedIssue (fetchRepo_settle outcome (fetchRepo_start r s)) = JNull
      \<and> selectedModel (fetchRepo_settle outcome (fetchRepo_start r s)) = selectedModel s
      \<and> repoUrl (fetchRepo_settle outcome (fetchRepo_start r s)) = repoUrl s
      \<and> chatMessages (fetchRepo_settle outcome (fetchRepo_start r s)) = chatMessages s
      \<and> alerts (fetchRepo_settle outcome (fetchRepo_start r s)) =
          alerts s @ [''Error: '' @ err_message err]
      \<and> \<not> dialog_loading (fetchRepo_settle outcome (fetchRepo_start r s)))
   \<and> (trim (repoUrl r) = [] \<longrightarrow>
        fetchRepo_start r s = s\<lparr>alerts := alerts s @ [''Enter repository URL'']\<rparr>)"
proof -
  let ?s1 = "fetchRepo_start r s"
  let ?s2 = "fetchRepo_settle outcome ?s1"
  have caught: "?s2 = fetchRepo_finally (fetchRepo_catch err ?s1)"
    if "outcome = Inl err \<or> (\<exists>res s'. outcome = Inr res \<and> fetchRepo_try res ?s1 = Inl (err, s'))"
    using that
  proof
    assume "outcome = Inl err"
    then show ?thesis by (simp add: fetchRepo_settle_def)
  next
    assume "\<exists>res s'. outcome = Inr res \<and> fetchRepo_try res ?s1 = Inl (err, s')"
    then obtain res s' where o: "outcome = Inr res" and t: "fetchRepo_try res ?s1 = Inl (err, s')"
      by blast
    from t have "s' = ?s1" by (rule fetchRepo_try_Inl)
    with o t show ?thesis by (simp add: fetchRepo_settle_def)
  qed
  have started: "summary ?s1 = summary s" "issues ?s1 = JArr []" "selectedIssue ?s1 = JNull"
    "selectedModel ?s1 = selectedModel s" "repoUrl ?s1 = repoUrl s"
    "chatMessages ?s1 = chatMessages s" "alerts ?s1 = alerts s"
    if "trim (repoUrl r) \<noteq> []"
    using that by (simp_all add: fetchRepo_start_def)
  have blank: "fetchRepo_start r s = s\<lparr>alerts := alerts s @ [''Enter repository URL'']\<rparr>"
    if "trim (repoUrl r) = []"
    using that by (simp add: fetchRepo_start_def)
  show ?thesis
    using caught started blank
    by (auto simp: fetchRepo_finally_def fetchRepo_catch_def)
qed

theorem fetchRepo_failure_effect_witness:
  "trim (repoUrl (mount ctx0)) \<noteq> []
   \<and> summary (fetchRepo_settle (Inl timeout_error) (fetchRepo_start (mount ctx0) (mount ctx0))) =
       JStr ''A small library.''
   \<and> issues (fetchRepo_settle (Inl timeout_error) (fetchRepo_start (mount ctx0) (mount ctx0))) = JArr []
   \<and> alerts (fetchRepo_settle (Inl timeout_error) (fetchRepo_start (mount ctx0) (mount ctx0))) =
       [''Error: generation timed out'']
   \<and> summary (fetchRepo_settle (Inr JNull) (fetchRepo_start (mount ctx0) (mount ctx0))) =
       JStr ''A small library.''
   \<and> alerts (fetchRepo_settle (Inr JNull) (fetchRepo_start (mount ctx0) (mount ctx0))) =
       [''Error: Cannot read properties of null (reading data)'']"
proof -
  have u: "trim (repoUrl (mount ctx0)) \<noteq> []" by code_simp
  have s: "summary (mount ctx0) = JStr ''A small library.''" by (simp add: mount_def ctx0_def)
  have a: "alerts (mount ctx0) = []" by (simp add: mount_def)
  have m: "err_message timeout_error = ''generation timed out''" by (simp add: timeout_error_def)
  have t: "fetchRepo_try JNull (fetchRepo_start (mount ctx0) (mount ctx0)) =
      Inl (type_error ''Cannot read properties of null (reading data)'',
           fetchRepo_start (mount ctx0) (mount ctx0))"
    by (simp add: fetchRepo_try_def)
  have n: "err_message (type_error ''Cannot read properties of null (reading data)'') =
      ''Cannot read properties of null (reading data)''"
    by (simp add: type_error_def)
  from fetchRepo_failure_effect
    [where r = "mount ctx0" and s = "mount ctx0" and outcome = "Inl timeout_error"
       and err = timeout_error]
    fetchRepo_failure_effect
    [where r = "mount ctx0" and s = "mount ctx0" and outcome = "Inr JNull"
       and err = "type_error ''Cannot read properties of null (reading data)''"]
    u s a m t n
  show ?thesis by simp
qed

text \<open>
  C2 as stated fails: after a rejected ingestion the issue that was listed and selected
  before is gone.
\<close>

theorem fetchRepo_failure_clears_issues:
  "fetchRepo_settle (Inl timeout_error) (fetchRepo_start (mount ctx0) (mount ctx0)) = failed0
   \<and> issues (mount ctx0) = JArr [issue7]
   \<and> issues failed0 = JArr []
   \<and> selectedIssue (mount ctx0) = JNum 7
   \<and> selectedIssue failed0 = JNull"
proof -
  have 1: "fetchRepo_settle (Inl timeout_error) (fetchRepo_start (mount ctx0) (mount ctx0)) = failed0"
    by code_simp
  have 2: "issues (mount ctx0) = JArr [issue7]" "selectedIssue (mount ctx0) = JNum 7"
    by (simp_all add: mount_def ctx0_def)
  have 3: "issues failed0 = JArr []" "selectedIssue failed0 = JNull"
    by (simp_all add: failed0_def)
  from 1 2 3 show ?thesis by blast
qed

section \<open>Queries: what a request carries\<close>

text \<open>
  C3, as the code has it. Every query request \<open>sendMessage\<close> issues is an object of
  exactly three fields: \<open>issue_id\<close>, the selected issue; \<open>prompt\<close>, the submitted
  text; \<open>model\<close>, the selected model. It carries no session or repository key: which
  repository is meant is left to the backend.
\<close>

theorem askAI_payload_fields:
  "(trim (chat_input r) \<noteq> [] \<longrightarrow>
      askAI_calls (sendMessage_start r s) =
        askAI_calls s @
          [JObj [(''issue_id'', selectedIssue r), (''prompt'', JStr (chat_input r)),
                 (''model'', JStr (selectedModel r))]])
   \<and> (run evs (mount c) = Inr s' \<longrightarrow>
        (\<forall>p\<in>set (askAI_calls s'). payload_keys p = [''issue_id'', ''prompt'', ''model'']))"
proof -
  have a: "askAI_calls (sendMessage_start r s) =
        askAI_calls s @
          [JObj [(''issue_id'', selectedIssue r), (''prompt'', JStr (chat_input r)),
                 (''model'', JStr (selectedModel r))]]"
    if "trim (chat_input r) \<noteq> []"
    using that by (simp add: sendMessage_start_def)
  have b: "\<forall>p\<in>set (askAI_calls s'). payload_keys p = [''issue_id'', ''prompt'', ''model'']"
    if r: "run evs (mount c) = Inr s'"
  proof -
    let ?P = "\<lambda>x. \<forall>p\<in>set (askAI_calls x). payload_keys p = [''issue_id'', ''prompt'', ''model'']"
    have init: "?P (mount c)" by (simp add: mount_def)
    have keep: "?P y" if "?P x" and "step e x = Inr y" for e x y
    proof -
      from that(2) obtain v where "dispatch v e x = Inr y" using step_Inr by blast
      from dispatch_askAI_calls [OF this] that(1) show ?thesis by auto
    qed
    show ?thesis by (rule run_invariant [where P = ?P, OF init keep r])
  qed
  from a b show ?thesis by blast
qed

theorem askAI_payload_fields_witness:
  "trim (chat_input chatting0) \<noteq> []
   \<and> askAI_calls (sendMessage_start chatting0 chatting0) =
       [JObj [(''issue_id'', JNum 7), (''prompt'', JStr question), (''model'', JStr ''gemini'')]]
   \<and> run [ChangeInput question, ClickSend] (mount ctx0) = Inr asked0
   \<and> map payload_keys (askAI_calls asked0) = [[''issue_id'', ''prompt'', ''model'']]"
proof -
  have i: "trim (chat_input chatting0) \<noteq> []" by code_simp
  have v: "askAI_calls chatting0 = []" "selectedIssue chatting0 = JNum 7"
    "chat_input chatting0 = question" "selectedModel chatting0 = ''gemini''"
    by (simp_all add: chatting0_def mount_def ctx0_def)
  have r: "run [ChangeInput question, ClickSend] (mount ctx0) = Inr asked0" by code_simp
  have k: "map payload_keys (askAI_calls asked0) = [[''issue_id'', ''prompt'', ''model'']]"
    by (simp add: asked0_def)
  from askAI_payload_fields [where r = chatting0 and s = chatting0
      and evs = "[ChangeInput question, ClickSend]" and c = ctx0 and s' = asked0] i v r k
  show ?thesis by simp
qed

text \<open>
  C3 as stated fails: the same question about the same issue, asked over two different
  repositories, issues the same request, whose keys are \<open>issue_id\<close>, \<open>prompt\<close> and
  \<open>model\<close>.
\<close>

theorem askAI_payload_no_session_key:
  "askAI_calls (sendMessage_start chatting0 chatting0) =
     [JObj [(''issue_id'', JNum 7), (''prompt'', JStr ''Why does it crash?''),
            (''model'', JStr ''gemini'')]]
   \<and> askAI_calls (sendMessage_start chatting1 chatting1) =
       askAI_calls (sendMessage_start chatting0 chatting0)
   \<and> repoUrl chatting0 = ''https://github.com/octo/repo''
   \<and> repoUrl chatting1 = ''https://github.com/other/project''
   \<and> map payload_keys (askAI_calls (sendMessage_start chatting0 chatting0)) =
       [[''issue_id'', ''prompt'', ''model'']]"
proof -
  have 1: "askAI_calls (sendMessage_start chatting0 chatting0) =
     [JObj [(''issue_id'', JNum 7), (''prompt'', JStr ''Why does it crash?''),
            (''model'', JStr ''gemini'')]]"
    by code_simp
  have 2: "askAI_calls (sendMessage_start chatting1 chatting1) =
     [JObj [(''issue_id'', JNum 7), (''prompt'', JStr ''Why does it crash?''),
            (''model'', JStr ''gemini'')]]"
    by code_simp
  have 3: "repoUrl chatting0 = ''https://github.com/octo/repo''"
    "repoUrl chatting1 = ''https://github.com/other/project''"
    by (simp_all add: chatting1_def chatting0_def mount_def ctx0_def)
  from 1 2 3 show ?thesis by simp
qed

text \<open>
  C4, as the code has it. Every request carries the model selected in the UI at the
  moment it is made, the ingestion at the click on Fetch and a query at its send. Over
  any events among which no model is picked the selection stays what it was, and every
  request made, ingestion or query, carries that model.
\<close>

theorem requests_carry_current_model:
  assumes "run evs s = Inr s'" and "\<forall>e\<in>set evs. \<not> is_PickModel e"
  shows "selectedModel s' = selectedModel s
     \<and> (\<exists>new. askAI_calls s' = askAI_calls s @ new
            \<and> (\<forall>p\<in>set new. get_prop p ''model'' = Inr (JStr (selectedModel s))))
     \<and> (\<exists>new. processRepo_calls s' = processRepo_calls s @ new
            \<and> (\<forall>p\<in>set new. get_prop p ''model'' = Inr (JStr (selectedModel s))))"
  using assms
proof (induction evs arbitrary: s)
  case Nil
  then show ?case by simp
next
  case (Cons e evs)
  from Cons.prems(1) obtain s1 where s1: "step e s = Inr s1" and r: "run evs s1 = Inr s'"
    by (auto split: sum.splits)
  from s1 obtain v where d: "dispatch v e s = Inr s1" using step_Inr by blast
  from Cons.prems(2) have ne: "\<not> is_PickModel e" and rest: "\<forall>e\<in>set evs. \<not> is_PickModel e"
    by simp_all
  from d ne have m1: "selectedModel s1 = selectedModel s" by (rule dispatch_selectedModel)
  from dispatch_askAI_calls [OF d] obtain n1 where
    a1: "askAI_calls s1 = askAI_calls s @ n1"
    and a1m: "\<forall>p\<in>set n1. get_prop p ''model'' = Inr (JStr (selectedModel s))"
    by auto
  from dispatch_processRepo_calls [OF d] obtain k1 where
    p1: "processRepo_calls s1 = processRepo_calls s @ k1"
    and p1m: "\<forall>p\<in>set k1. get_prop p ''model'' = Inr (JStr (selectedModel s))"
    by auto
  from Cons.IH [OF r rest] m1 obtain n2 k2 where
    m2: "selectedModel s' = selectedModel s"
    and a2: "askAI_calls s' = askAI_calls s1 @ n2"
    and a2m: "\<forall>p\<in>set n2. get_prop p ''model'' = Inr (JStr (selectedModel s))"
    and p2: "processRepo_calls s' = processRepo_calls s1 @ k2"
    and p2m: "\<forall>p\<in>set k2. get_prop p ''model'' = Inr (JStr (selectedModel s))"
    by auto
  have "askAI_calls s' = askAI_calls s @ (n1 @ n2)" using a1 a2 by simp
  moreover have "\<forall>p\<in>set (n1 @ n2). get_prop p ''model'' = Inr (JStr (selectedModel s))"
    using a1m a2m by auto
  moreover have "processRepo_calls s' = processRepo_calls s @ (k1 @ k2)" using p1 p2 by simp
  moreover have "\<forall>p\<in>set (k1 @ k2). get_prop p ''model'' = Inr (JStr (selectedModel s))"
    using p1m p2m by auto
  ultimately show ?case using m2 by blast
qed

theorem requests_carry_current_model_witness:
  "run [ClickFetch, ProcessRepoSettled (Inr repo_response), PickIssue 0,
        ChangeInput question, KeyPress ''Enter'' False] (mount ctx0) = Inr kept0
   \<and> selectedModel kept0 = ''gemini''
   \<and> processRepo_calls kept0 =
       [JObj [(''url'', JStr ''https://github.com/octo/repo''), (''model'', JStr ''gemini'')]]
   \<and> askAI_calls kept0 =
       [JObj [(''issue_id'', JNum 7), (''prompt'', JStr question), (''model'', JStr ''gemini'')]]"
proof -
  have r: "run [ClickFetch, ProcessRepoSettled (Inr repo_response), PickIssue 0,
        ChangeInput question, KeyPress ''Enter'' False] (mount ctx0) = Inr kept0"
    by code_simp
  have n: "\<forall>e\<in>set [ClickFetch, ProcessRepoSettled (Inr repo_response), PickIssue 0,
        ChangeInput question, KeyPress ''Enter'' False]. \<not> is_PickModel e"
    by simp
  have k: "selectedModel (mount ctx0) = ''gemini''" by (simp add: mount_def ctx0_def)
  have c: "processRepo_calls kept0 =
       [JObj [(''url'', JStr ''https://github.com/octo/repo''), (''model'', JStr ''gemini'')]]"
    "askAI_calls kept0 =
       [JObj [(''issue_id'', JNum 7), (''prompt'', JStr question), (''model'', JStr ''gemini'')]]"
    by (simp_all add: kept0_def)
  from requests_carry_current_model [OF r n] r k c show ?thesis by simp
qed

text \<open>
  C4 as stated fails: ingest with Gemini selected, pick Groq in the Sidebar, ask; the
  ingestion went out with \<open>gemini\<close>, the query goes out with \<open>groq\<close>, and no new
  ingestion was made.
\<close>

theorem model_switch_changes_queries:
  "run [ClickFetch, ProcessRepoSettled (Inr repo_response), PickModel InSidebar 1, PickIssue 0,
        ChangeInput question, KeyPress ''Enter'' False] (mount ctx0) = Inr switched0
   \<and> processRepo_calls switched0 =
       [JObj [(''url'', JStr ''https://github.com/octo/repo''), (''model'', JStr ''gemini'')]]
   \<and> askAI_calls switched0 =
       [JObj [(''issue_id'', JNum 7), (''prompt'', JStr question), (''model'', JStr ''groq'')]]"
proof -
  have r: "run [ClickFetch, ProcessRepoSettled (Inr repo_response), PickModel InSidebar 1, PickIssue 0,
        ChangeInput question, KeyPress ''Enter'' False] (mount ctx0) = Inr switched0"
    by code_simp
  have c: "processRepo_calls switched0 =
       [JObj [(''url'', JStr ''https://github.com/octo/repo''), (''model'', JStr ''gemini'')]]"
    "askAI_calls switched0 =
       [JObj [(''issue_id'', JNum 7), (''prompt'', JStr question), (''model'', JStr ''groq'')]]"
    by (simp_all add: switched0_def kept0_def)
  from r c show ?thesis by blast
qed

end
